theory Spec2Isabelle
  imports Main
begin

section \<open>JavaScript values\<close>

text \<open>
  The clients read response bodies typed \<open>any\<close>. A body is a JSON value; reading a
  member that is absent gives \<open>undefined\<close>, which is a value of its own here.
  Numbers are integers (status codes, ids, page numbers, lengths); strings are lists of
  bytes. An object lists its members, each name once.
\<close>

datatype jsval =
    JUndefined
  | JNull
  | JBool bool
  | JNum int
  | JStr string
  | JArr "jsval list"
  | JObj "(string \<times> jsval) list"

text \<open>
  What a call can throw: the rejection of \<open>fetch\<close> (the request never completed), the
  rejection of \<open>response.json()\<close> (the body is not JSON), a member read on \<open>null\<close> or
  \<open>undefined\<close>, and whatever the subclass's \<open>parse\<close> throws.
\<close>

datatype exn = NetworkError | SyntaxError | TypeError | Thrown string

text \<open>The test of \<open>if (v)\<close> and \<open>!v\<close>.\<close>

fun truthy :: "jsval \<Rightarrow> bool" where
  "truthy JUndefined = False"
| "truthy JNull = False"
| "truthy (JBool b) = b"
| "truthy (JNum n) = (n \<noteq> 0)"
| "truthy (JStr s) = (s \<noteq> [])"
| "truthy (JArr xs) = True"
| "truthy (JObj kvs) = True"

text \<open>\<open>v == null\<close>, the test behind \<open>??\<close>, \<open>?.\<close> and \<open>!= null\<close>.\<close>

fun nullish :: "jsval \<Rightarrow> bool" where
  "nullish JUndefined = True"
| "nullish JNull = True"
| "nullish v = False"

text \<open>Decimal notation of a number, as \<open>toString\<close> and string concatenation give it.\<close>

definition digit_char :: "nat \<Rightarrow> char" where
  "digit_char d = char_of (of_char (CHR ''0'') + d)"

function show_nat :: "nat \<Rightarrow> string" where
  "show_nat n = (if n < 10 then [digit_char n] else show_nat (n div 10) @ [digit_char (n mod 10)])"
  by pat_completeness auto
termination
  by (relation "measure id") auto

declare show_nat.simps [simp del]

definition show_int :: "int \<Rightarrow> string" where
  "show_int i = (if i < 0 then CHR ''-'' # show_nat (nat (- i)) else show_nat (nat i))"

text \<open>
  The member read \<open>v.name\<close>, for the names the clients read (\<open>detail\<close>, \<open>details\<close>,
  \<open>results\<close>, \<open>previous\<close>, \<open>next\<close>, \<open>length\<close>): a TypeError on \<open>null\<close> and
  \<open>undefined\<close>; arrays and strings have a \<open>length\<close>; a primitive has none of them.
\<close>

fun get_member :: "jsval \<Rightarrow> string \<Rightarrow> exn + jsval" where
  "get_member JUndefined name = Inl TypeError"
| "get_member JNull name = Inl TypeError"
| "get_member (JObj kvs) name = Inr (case map_of kvs name of None \<Rightarrow> JUndefined | Some v \<Rightarrow> v)"
| "get_member (JArr xs) name = Inr (if name = ''length'' then JNum (int (length xs)) else JUndefined)"
| "get_member (JStr s) name = Inr (if name = ''length'' then JNum (int (length s)) else JUndefined)"
| "get_member (JBool b) name = Inr JUndefined"
| "get_member (JNum n) name = Inr JUndefined"

text \<open>The indexed read \<open>v[i]\<close>; out of range it gives \<open>undefined\<close>.\<close>

fun get_index :: "jsval \<Rightarrow> nat \<Rightarrow> exn + jsval" where
  "get_index JUndefined i = Inl TypeError"
| "get_index JNull i = Inl TypeError"
| "get_index (JArr xs) i = Inr (if i < length xs then xs ! i else JUndefined)"
| "get_index (JStr s) i = Inr (if i < length s then JStr [s ! i] else JUndefined)"
| "get_index (JObj kvs) i = Inr (case map_of kvs (show_nat i) of None \<Rightarrow> JUndefined | Some v \<Rightarrow> v)"
| "get_index (JBool b) i = Inr JUndefined"
| "get_index (JNum n) i = Inr JUndefined"

text \<open>
  The number a value stands for in \<open>a < b\<close> and \<open>a > b\<close>, \<open>None\<close> for NaN. Only the
  \<open>length\<close> member of a JSON object can bring a string, an array or an object here;
  the engine's conversion of those is not modelled and they count as NaN.
\<close>

fun to_number :: "jsval \<Rightarrow> int option" where
  "to_number JUndefined = None"
| "to_number JNull = Some 0"
| "to_number (JBool b) = Some (if b then 1 else 0)"
| "to_number (JNum n) = Some n"
| "to_number (JStr s) = None"
| "to_number (JArr xs) = None"
| "to_number (JObj kvs) = None"

definition js_less :: "int \<Rightarrow> jsval \<Rightarrow> bool" where
  "js_less i v = (case to_number v of None \<Rightarrow> False | Some n \<Rightarrow> i < n)"

text \<open>\<open>v?.length > 0\<close>: \<open>undefined > 0\<close> is false.\<close>

definition has_entries :: "jsval \<Rightarrow> bool" where
  "has_entries v =
     (if nullish v then False
      else (case get_member v ''length'' of Inl e \<Rightarrow> False | Inr l \<Rightarrow> js_less 0 l))"

section \<open>Requests, responses and the world a call runs in\<close>

record request =
  target :: string
  meth :: "string option"
  headers :: "(string \<times> string) list"
  body :: "string option"
  cache :: "string option"


text \<open>
  A response: its status and what \<open>response.json()\<close> gives, \<open>None\<close> when the body is not
  JSON and the call rejects.
\<close>

record response =
  status :: int
  parsed_body :: "jsval option"

definition ok :: "response \<Rightarrow> bool" where
  "ok r = (200 \<le> status r \<and> status r \<le> 299)"

datatype fetched = Rejected | Responded response

record user =
  token :: string

record session =
  user :: user

text \<open>
  The state a call reads and writes: the session \<open>getSession\<close> finds, the network (what
  each request meets), the requests issued so far and the lines written to the console.
\<close>

record world =
  current_session :: "session option"
  network :: "request \<Rightarrow> fetched"
  sent :: "request list"
  console :: "string list"

definition console_error :: "string \<Rightarrow> world \<Rightarrow> world" where
  "console_error line w = w\<lparr>console := console w @ [line]\<rparr>"

definition js_fetch :: "request \<Rightarrow> world \<Rightarrow> fetched \<times> world" where
  "js_fetch r w = (network w r, w\<lparr>sent := sent w @ [r]\<rparr>)"

definition getAccessToken :: "world \<Rightarrow> string \<times> world" where
  "getAccessToken w =
     (case current_session w of
        None \<Rightarrow> ('''', console_error ''Could not get session'' w)
      | Some s \<Rightarrow> (token (user s), w))"

text \<open>
  The string a value becomes when it is concatenated to a string.
\<close>

fun join_with :: "string \<Rightarrow> string list \<Rightarrow> string" where
  "join_with sep [] = []"
| "join_with sep [x] = x"
| "join_with sep (x # y # ys) = x @ sep @ join_with sep (y # ys)"

fun js_string :: "jsval \<Rightarrow> string" where
  "js_string JUndefined = ''undefined''"
| "js_string JNull = ''null''"
| "js_string (JBool b) = (if b then ''true'' else ''false'')"
| "js_string (JNum n) = show_int n"
| "js_string (JStr s) = s"
| "js_string (JArr xs) = join_with '','' (map (\<lambda>x. if nullish x then [] else js_string x) xs)"
| "js_string (JObj kvs) = ''[object Object]''"

section \<open>Query strings\<close>

text \<open>
  \<open>URLSearchParams\<close> written into a template literal: the pairs in order, joined by
  \<open>&\<close>, names and values percent-encoded byte by byte; letters, digits and \<open>*-._\<close>
  stay, a space becomes \<open>+\<close>.
\<close>

definition unreserved :: "char \<Rightarrow> bool" where
  "unreserved c =
     (c \<in> set ''ABCDEFGHIJKLMNOPQRSTUVWXYZabcdefghijklmnopqrstuvwxyz0123456789*-._'')"

definition hex_char :: "nat \<Rightarrow> char" where
  "hex_char d = ''0123456789ABCDEF'' ! d"

definition urlencode_char :: "char \<Rightarrow> string" where
  "urlencode_char c =
     (if unreserved c then [c]
      else if c = CHR '' '' then ''+''
      else [CHR ''%'', hex_char (of_char c div 16), hex_char (of_char c mod 16)])"

definition urlencode :: "string \<Rightarrow> string" where
  "urlencode s = concat (map urlencode_char s)"

definition URLSearchParams_toString :: "(string \<times> string) list \<Rightarrow> string" where
  "URLSearchParams_toString ps =
     join_with ''&'' (map (\<lambda>(name, v). urlencode name @ ''='' @ urlencode v) ps)"

section \<open>Records, clients and results\<close>

text \<open>
  \<open>SortBy\<close> is imported by the client and not part of these sources: a sort field and
  the string its \<open>getDirectionAsString()\<close> returns.
\<close>

record sort_by =
  field :: string
  getDirectionAsString :: string

text \<open>
  A client for records of type \<open>'r\<close>: the domain read from the environment (absent when
  the variable is not set), the two abstract methods \<open>getEndpoint\<close> and \<open>parse\<close>, the
  \<open>id\<close> of a record and the text \<open>JSON.stringify\<close> gives for it.
\<close>

record 'r client =
  domain :: "string option"
  getEndpoint :: string
  parse :: "jsval \<Rightarrow> exn + 'r"
  record_id :: "'r \<Rightarrow> int"
  stringify :: "'r \<Rightarrow> string"

text \<open>\<open>this.domain\<close> inside a concatenation: an unset domain reads \<open>undefined\<close>.\<close>

definition domain_string :: "'r client \<Rightarrow> string" where
  "domain_string c = (case domain c of None \<Rightarrow> ''undefined'' | Some d \<Rightarrow> d)"

text \<open>
  \<open>MultiRecordResult\<close> and \<open>SingleRecordResult\<close> are imported by the client and not part
  of these sources. Each is built by one of two factories: \<open>asSuccessResult\<close> (status,
  records, page, hasPreviousPage, hasNextPage; or status, record) and \<open>asErrorResult\<close>
  (status, error message). The message is whatever value the client passes.
\<close>

datatype 'r MultiRecordResult =
    Multi_asSuccessResult int "'r list" int bool bool
  | Multi_asErrorResult int jsval

datatype 'r SingleRecordResult =
    Single_asSuccessResult int 'r
  | Single_asErrorResult int jsval

definition authorization :: "string \<Rightarrow> string \<times> string" where
  "authorization accessToken = (''Authorization'', ''Token '' @ accessToken)"

section \<open>DatabaseRecordClient\<close>

text \<open>
  The loop of \<open>fetch\<close>: \<open>for (index = 0; index < results.length; index++)
  records.push(this.parse(results[index]))\<close>.
\<close>

definition loop_bound :: "jsval \<Rightarrow> nat" where
  "loop_bound results =
     (case get_member results ''length'' of
        Inl e \<Rightarrow> 0
      | Inr l \<Rightarrow> (case to_number l of None \<Rightarrow> 0 | Some n \<Rightarrow> nat n))"

function parse_loop :: "(jsval \<Rightarrow> exn + 'r) \<Rightarrow> jsval \<Rightarrow> nat \<Rightarrow> 'r list \<Rightarrow> exn + 'r list" where
  "parse_loop p results index records =
     (case get_member results ''length'' of
        Inl e \<Rightarrow> Inl e
      | Inr l \<Rightarrow>
          if js_less (int index) l then
            (case get_index results index of
               Inl e \<Rightarrow> Inl e
             | Inr r \<Rightarrow>
                 (case p r of
                    Inl e \<Rightarrow> Inl e
                  | Inr x \<Rightarrow> parse_loop p results (Suc index) (records @ [x])))
          else Inr records)"
  by pat_completeness auto
termination
  by (relation "measure (\<lambda>(p, results, index, records). loop_bound results - index)")
    (auto simp: loop_bound_def js_less_def split: option.splits)

declare parse_loop.simps [simp del]

text \<open>
  The message of a response that is not a success, as \<open>fetch\<close> and \<open>submit\<close> build it:
  \<open>json.detail\<close> when truthy, else \<open>json.details[0]\<close> when \<open>json.details?.length > 0\<close>,
  else the fallback.
\<close>

definition error_of :: "jsval \<Rightarrow> exn + jsval" where
  "error_of json =
     (case get_member json ''detail'' of
        Inl e \<Rightarrow> Inl e
      | Inr detail \<Rightarrow>
          if truthy detail then Inr detail
          else
            (case get_member json ''details'' of
               Inl e \<Rightarrow> Inl e
             | Inr details \<Rightarrow>
                 if has_entries details then get_index details 0
                 else Inr (JStr ''Unknown error'')))"

definition fetch_request :: "'r client \<Rightarrow> sort_by \<Rightarrow> int \<Rightarrow> string \<Rightarrow> request" where
  "fetch_request c sortBy page accessToken =
     (let searchParams = URLSearchParams_toString
            [(''sortField'', field sortBy),
             (''sortDir'', getDirectionAsString sortBy),
             (''page'', show_int page)];
          url = domain_string c @ getEndpoint c @ ''?'' @ searchParams
      in \<lparr>target = url, meth = None, headers = [authorization accessToken], body = None,
           cache = Some ''no-store''\<rparr>)"

definition fetch_response :: "'r client \<Rightarrow> int \<Rightarrow> response \<Rightarrow> exn + 'r MultiRecordResult" where
  "fetch_response c page response =
     (case parsed_body response of
        None \<Rightarrow> Inl SyntaxError
      | Some json \<Rightarrow>
          if status response \<noteq> 200 then
            (case error_of json of
               Inl e \<Rightarrow> Inl e
             | Inr error \<Rightarrow> Inr (Multi_asErrorResult (status response) error))
          else
            (case get_member json ''results'' of
               Inl e \<Rightarrow> Inl e
             | Inr results \<Rightarrow>
                 (case parse_loop (parse c) results 0 [] of
                    Inl e \<Rightarrow> Inl e
                  | Inr records \<Rightarrow>
                      (case get_member json ''previous'' of
                         Inl e \<Rightarrow> Inl e
                       | Inr previous \<Rightarrow>
                           (case get_member json ''next'' of
                              Inl e \<Rightarrow> Inl e
                            | Inr next \<Rightarrow>
                                Inr (Multi_asSuccessResult (status response) records page
                                       (\<not> nullish previous) (\<not> nullish next)))))))"

definition DatabaseRecordClient_fetch ::
  "'r client \<Rightarrow> sort_by \<Rightarrow> int option \<Rightarrow> world \<Rightarrow> (exn + 'r MultiRecordResult) \<times> world" where
  "DatabaseRecordClient_fetch c sortBy page_arg w =
     (let page = (case page_arg of None \<Rightarrow> 1 | Some p \<Rightarrow> p);
          (token, w1) = getAccessToken w;
          (fetched, w2) = js_fetch (fetch_request c sortBy page token) w1
      in case fetched of
           Rejected \<Rightarrow>
             (Inr (Multi_asErrorResult 503 (JStr ''Could not connect to the API'')), w2)
         | Responded response \<Rightarrow> (fetch_response c page response, w2))"

definition get_request :: "'r client \<Rightarrow> int \<Rightarrow> string \<Rightarrow> request" where
  "get_request c rid accessToken =
     (let url = domain_string c @ getEndpoint c @ show_int rid @ ''/''
      in \<lparr>target = url, meth = None, headers = [authorization accessToken], body = None,
           cache = Some ''no-store''\<rparr>)"

definition get_response :: "'r client \<Rightarrow> response \<Rightarrow> exn + 'r SingleRecordResult" where
  "get_response c response =
     (case parsed_body response of
        None \<Rightarrow> Inl SyntaxError
      | Some json \<Rightarrow>
          if status response \<noteq> 200 then
            (case get_member json ''detail'' of
               Inl e \<Rightarrow> Inl e
             | Inr detail \<Rightarrow>
                 Inr (Single_asErrorResult (status response)
                        (if nullish detail then JStr ''Unknown error'' else detail)))
          else
            (case parse c json of
               Inl e \<Rightarrow> Inl e
             | Inr newRecord \<Rightarrow> Inr (Single_asSuccessResult (status response) newRecord)))"

definition DatabaseRecordClient_get ::
  "'r client \<Rightarrow> int \<Rightarrow> world \<Rightarrow> (exn + 'r SingleRecordResult) \<times> world" where
  "DatabaseRecordClient_get c rid w =
     (let (token, w1) = getAccessToken w;
          (fetched, w2) = js_fetch (get_request c rid token) w1
      in case fetched of
           Rejected \<Rightarrow>
             (Inr (Single_asErrorResult 503 (JStr ''Could not connect to the API'')), w2)
         | Responded response \<Rightarrow> (get_response c response, w2))"

definition submit_request :: "'r client \<Rightarrow> 'r \<Rightarrow> string \<Rightarrow> string \<Rightarrow> string \<Rightarrow> request" where
  "submit_request c record url method accessToken =
     \<lparr>target = url, meth = Some method,
      headers = [(''Content-Type'', ''application/json''), authorization accessToken],
      body = Some (stringify c record), cache = None\<rparr>"

definition submit_response :: "'r client \<Rightarrow> response \<Rightarrow> exn + 'r SingleRecordResult" where
  "submit_response c response =
     (case parsed_body response of
        None \<Rightarrow> Inl SyntaxError
      | Some json \<Rightarrow>
          if status response \<noteq> 200 \<and> status response \<noteq> 201 then
            (case error_of json of
               Inl e \<Rightarrow> Inl e
             | Inr error \<Rightarrow> Inr (Single_asErrorResult (status response) error))
          else
            (case parse c json of
               Inl e \<Rightarrow> Inl e
             | Inr newRecord \<Rightarrow> Inr (Single_asSuccessResult (status response) newRecord)))"

definition submit ::
  "'r client \<Rightarrow> 'r \<Rightarrow> string \<Rightarrow> string \<Rightarrow> world \<Rightarrow> (exn + 'r SingleRecordResult) \<times> world" where
  "submit c record url method w =
     (let (token, w1) = getAccessToken w;
          (fetched, w2) = js_fetch (submit_request c record url method token) w1
      in case fetched of
           Rejected \<Rightarrow> (Inr (Single_asErrorResult 503 (JStr ''Could not connect to API'')), w2)
         | Responded response \<Rightarrow> (submit_response c response, w2))"

definition DatabaseRecordClient_post ::
  "'r client \<Rightarrow> 'r \<Rightarrow> world \<Rightarrow> (exn + 'r SingleRecordResult) \<times> world" where
  "DatabaseRecordClient_post c record w =
     (let url = domain_string c @ getEndpoint c
      in submit c record url ''POST'' w)"

definition DatabaseRecordClient_put ::
  "'r client \<Rightarrow> 'r \<Rightarrow> world \<Rightarrow> (exn + 'r SingleRecordResult) \<times> world" where
  "DatabaseRecordClient_put c record w =
     (let url = domain_string c @ getEndpoint c @ show_int (record_id c record) @ ''/''
      in submit c record url ''PUT'' w)"

definition delete_request :: "'r client \<Rightarrow> int \<Rightarrow> string \<Rightarrow> request" where
  "delete_request c rid accessToken =
     (let url = domain_string c @ getEndpoint c @ show_int rid @ ''/''
      in \<lparr>target = url, meth = Some ''DELETE'', headers = [authorization accessToken], body = None,
           cache = None\<rparr>)"

definition DatabaseRecordClient_delete ::
  "'r client \<Rightarrow> int \<Rightarrow> world \<Rightarrow> (exn + response option) \<times> world" where
  "DatabaseRecordClient_delete c rid w =
     (let (token, w1) = getAccessToken w;
          (fetched, w2) = js_fetch (delete_request c rid token) w1
      in case fetched of
           Rejected \<Rightarrow> (Inr None, w2)
         | Responded response \<Rightarrow> (Inr (Some response), w2))"

section \<open>APIClient\<close>

text \<open>
  The simpler client awaits \<open>fetch\<close> outside any \<open>try\<close>. Its \<open>get\<close>, \<open>post\<close> and \<open>put\<close>
  build the requests of the richer client's \<open>get\<close> and \<open>submit\<close>; its \<open>fetch\<close> asks for
  the bare endpoint.
\<close>

definition APIClient_fetch_request :: "'r client \<Rightarrow> string \<Rightarrow> request" where
  "APIClient_fetch_request c accessToken =
     (let url = domain_string c @ getEndpoint c
      in \<lparr>target = url, meth = None, headers = [authorization accessToken], body = None,
           cache = Some ''no-store''\<rparr>)"

definition APIClient_fetch_response ::
  "'r client \<Rightarrow> response \<Rightarrow> world \<Rightarrow> (exn + 'r list) \<times> world" where
  "APIClient_fetch_response c response w =
     (if \<not> ok response then (Inr [], console_error ''Response not OK'' w)
      else
        (case parsed_body response of
           None \<Rightarrow> (Inl SyntaxError, w)
         | Some data \<Rightarrow>
             if \<not> truthy data then (Inr [], console_error ''Data was NULL'' w)
             else
               (case get_member data ''detail'' of
                  Inl e \<Rightarrow> (Inl e, w)
                | Inr detail \<Rightarrow>
                    if truthy detail then
                      (Inr [], console_error (''data.detail: '' @ js_string detail) w)
                    else
                      (case get_member data ''results'' of
                         Inl e \<Rightarrow> (Inl e, w)
                       | Inr results \<Rightarrow>
                           if \<not> truthy results then (Inr [], console_error ''No results'' w)
                           else (parse_loop (parse c) results 0 [], w)))))"

definition APIClient_fetch :: "'r client \<Rightarrow> world \<Rightarrow> (exn + 'r list) \<times> world" where
  "APIClient_fetch c w =
     (let (token, w1) = getAccessToken w;
          (fetched, w2) = js_fetch (APIClient_fetch_request c token) w1
      in case fetched of
           Rejected \<Rightarrow> (Inl NetworkError, w2)
         | Responded response \<Rightarrow> APIClient_fetch_response c response w2)"

definition APIClient_get_response ::
  "'r client \<Rightarrow> response \<Rightarrow> world \<Rightarrow> (exn + 'r option) \<times> world" where
  "APIClient_get_response c response w =
     (if \<not> ok response then (Inr None, console_error ''Response not OK'' w)
      else
        (case parsed_body response of
           None \<Rightarrow> (Inl SyntaxError, w)
         | Some data \<Rightarrow>
             if \<not> truthy data then (Inr None, console_error ''Data was NULL'' w)
             else
               (case parse c data of
                  Inl e \<Rightarrow> (Inl e, w)
                | Inr r \<Rightarrow> (Inr (Some r), w))))"

definition APIClient_get :: "'r client \<Rightarrow> int \<Rightarrow> world \<Rightarrow> (exn + 'r option) \<times> world" where
  "APIClient_get c rid w =
     (let (token, w1) = getAccessToken w;
          (fetched, w2) = js_fetch (get_request c rid token) w1
      in case fetched of
           Rejected \<Rightarrow> (Inl NetworkError, w2)
         | Responded response \<Rightarrow> APIClient_get_response c response w2)"

text \<open>
  \<open>post\<close> and \<open>put\<close> return \<open>data\<close> as received, or \<open>null\<close>; they do not call \<open>parse\<close>.
\<close>

definition APIClient_write_response :: "response \<Rightarrow> world \<Rightarrow> (exn + jsval) \<times> world" where
  "APIClient_write_response response w =
     (if \<not> ok response then (Inr JNull, console_error ''Response not OK'' w)
      else
        (case parsed_body response of
           None \<Rightarrow> (Inl SyntaxError, w)
         | Some data \<Rightarrow>
             if \<not> truthy data then (Inr JNull, console_error ''Data was NULL'' w)
             else (Inr data, w)))"

definition APIClient_post :: "'r client \<Rightarrow> 'r \<Rightarrow> world \<Rightarrow> (exn + jsval) \<times> world" where
  "APIClient_post c record w =
     (let (token, w1) = getAccessToken w;
          url = domain_string c @ getEndpoint c;
          (fetched, w2) = js_fetch (submit_request c record url ''POST'' token) w1
      in case fetched of
           Rejected \<Rightarrow> (Inl NetworkError, w2)
         | Responded response \<Rightarrow> APIClient_write_response response w2)"

definition APIClient_put :: "'r client \<Rightarrow> 'r \<Rightarrow> world \<Rightarrow> (exn + jsval) \<times> world" where
  "APIClient_put c record w =
     (let (token, w1) = getAccessToken w;
          url = domain_string c @ getEndpoint c @ show_int (record_id c record) @ ''/'';
          (fetched, w2) = js_fetch (submit_request c record url ''PUT'' token) w1
      in case fetched of
           Rejected \<Rightarrow> (Inl NetworkError, w2)
         | Responded response \<Rightarrow> APIClient_write_response response w2)"

section \<open>Reference notions and a sample client\<close>

text \<open>
  The parse of each entry of an array, in order, stopping at the first entry on which
  \<open>parse\<close> throws. The loop of \<open>fetch\<close> is compared with it below.
\<close>

fun parse_each :: "(jsval \<Rightarrow> exn + 'r) \<Rightarrow> jsval list \<Rightarrow> exn + 'r list" where
  "parse_each p [] = Inr []"
| "parse_each p (x # xs) =
     (case p x of
        Inl e \<Rightarrow> Inl e
      | Inr y \<Rightarrow> (case parse_each p xs of Inl e \<Rightarrow> Inl e | Inr ys \<Rightarrow> Inr (y # ys)))"






text \<open>
  A client whose records are the JSON objects themselves, and worlds in which every
  request meets the same fate.
\<close>

definition id_of :: "jsval \<Rightarrow> int" where
  "id_of r = (case get_member r ''id'' of Inr (JNum n) \<Rightarrow> n | _ \<Rightarrow> 0)"

definition expense_client :: "jsval client" where
  "expense_client =
     \<lparr>domain = Some ''https://api.test'', getEndpoint = ''/expenses/'',
      parse = (\<lambda>v. if nullish v then Inl (Thrown ''no record'') else Inr v),
      record_id = id_of,
      stringify = (\<lambda>r. ''id:'' @ show_int (id_of r))\<rparr>"

definition world_with :: "session option \<Rightarrow> fetched \<Rightarrow> world" where
  "world_with s f = \<lparr>current_session = s, network = (\<lambda>r. f), sent = [], console = []\<rparr>"

definition signed_in :: "session option" where
  "signed_in = Some \<lparr>user = \<lparr>token = ''abc''\<rparr>\<rparr>"

text \<open>Sample requests and responses.\<close>

definition by_date :: sort_by where
  "by_date = \<lparr>field = ''date'', getDirectionAsString = ''desc''\<rparr>"

definition second_page :: response where
  "second_page =
     \<lparr>status = 200,
      parsed_body = Some (JObj [(''results'', JArr [JObj [(''id'', JNum 1)]]),
                                (''previous'', JStr ''...''), (''next'', JNull)])\<rparr>"

definition first_page :: response where
  "first_page =
     \<lparr>status = 200,
      parsed_body = Some (JObj [(''results'', JArr [JObj [(''id'', JNum 1)]]),
                                (''previous'', JNull), (''next'', JStr ''url'')])\<rparr>"

definition third_page :: response where
  "third_page =
     \<lparr>status = 200,
      parsed_body = Some (JObj [(''results'', JArr [JObj [(''id'', JNum 5)], JObj [(''id'', JNum 6)]]),
                                (''previous'', JStr ''url'')])\<rparr>"

definition refusal :: response where
  "refusal = \<lparr>status = 400, parsed_body = Some (JObj [(''details'', JArr [JStr ''Bad date''])])\<rparr>"

definition empty_object :: response where
  "empty_object = \<lparr>status = 200, parsed_body = Some (JObj [])\<rparr>"

definition bad_gateway :: response where
  "bad_gateway = \<lparr>status = 502, parsed_body = None\<rparr>"

definition no_content :: response where
  "no_content = \<lparr>status = 204, parsed_body = None\<rparr>"

definition null_body :: response where
  "null_body = \<lparr>status = 200, parsed_body = Some JNull\<rparr>"

definition flagged :: response where
  "flagged =
     \<lparr>status = 200,
      parsed_body = Some (JObj [(''detail'', JStr ''Not found.''),
                                (''results'', JArr [JObj [(''id'', JNum 1)]])])\<rparr>"

definition expense_seven :: jsval where
  "expense_seven = JObj [(''id'', JNum 7)]"

section \<open>Auxiliary facts\<close>

subsection \<open>The calls, with the token and the bookkeeping factored out\<close>

lemma getAccessToken_network: "network (snd (getAccessToken w)) = network w"
  and getAccessToken_sent: "sent (snd (getAccessToken w)) = sent w"
  by (simp_all add: getAccessToken_def console_error_def split: option.splits)

lemma fetch_unfold:
  "DatabaseRecordClient_fetch c sortBy page_arg w =
     (let page = (case page_arg of None \<Rightarrow> 1 | Some p \<Rightarrow> p);
          req = fetch_request c sortBy page (fst (getAccessToken w))
      in (case network w req of
            Rejected \<Rightarrow> Inr (Multi_asErrorResult 503 (JStr ''Could not connect to the API''))
          | Responded response \<Rightarrow> fetch_response c page response,
          (snd (getAccessToken w))\<lparr>sent := sent w @ [req]\<rparr>))"
  by (simp add: DatabaseRecordClient_fetch_def js_fetch_def Let_def case_prod_beta
      getAccessToken_network getAccessToken_sent split: fetched.splits)

lemma get_unfold:
  "DatabaseRecordClient_get c rid w =
     (let req = get_request c rid (fst (getAccessToken w))
      in (case network w req of
            Rejected \<Rightarrow> Inr (Single_asErrorResult 503 (JStr ''Could not connect to the API''))
          | Responded response \<Rightarrow> get_response c response,
          (snd (getAccessToken w))\<lparr>sent := sent w @ [req]\<rparr>))"
  by (simp add: DatabaseRecordClient_get_def js_fetch_def Let_def case_prod_beta
      getAccessToken_network getAccessToken_sent split: fetched.splits)

lemma submit_unfold:
  "submit c record url method w =
     (let req = submit_request c record url method (fst (getAccessToken w))
      in (case network w req of
            Rejected \<Rightarrow> Inr (Single_asErrorResult 503 (JStr ''Could not connect to API''))
          | Responded response \<Rightarrow> submit_response c response,
          (snd (getAccessToken w))\<lparr>sent := sent w @ [req]\<rparr>))"
  by (simp add: submit_def js_fetch_def Let_def case_prod_beta
      getAccessToken_network getAccessToken_sent split: fetched.splits)

lemma delete_unfold:
  "DatabaseRecordClient_delete c rid w =
     (let req = delete_request c rid (fst (getAccessToken w))
      in (case network w req of
            Rejected \<Rightarrow> Inr None
          | Responded response \<Rightarrow> Inr (Some response),
          (snd (getAccessToken w))\<lparr>sent := sent w @ [req]\<rparr>))"
  by (simp add: DatabaseRecordClient_delete_def js_fetch_def Let_def case_prod_beta
      getAccessToken_network getAccessToken_sent split: fetched.splits)

lemma parse_loop_array:
  "index \<le> length xs \<Longrightarrow>
   parse_loop p (JArr xs) index records =
     (case parse_each p (drop index xs) of Inl e \<Rightarrow> Inl e | Inr ys \<Rightarrow> Inr (records @ ys))"
proof (induction p "JArr xs" index records rule: parse_loop.induct)
  case (1 p index records)
  show ?case
  proof (cases "index < length xs")
    case True
    then have d: "drop index xs = xs ! index # drop (Suc index) xs"
      by (simp add: Cons_nth_drop_Suc)
    show ?thesis
    proof (cases "p (xs ! index)")
      case (Inl e)
      with True d show ?thesis
        by (subst parse_loop.simps) (simp add: js_less_def)
    next
      case (Inr x)
      have "parse_loop p (JArr xs) (Suc index) (records @ [x]) =
          (case parse_each p (drop (Suc index) xs) of Inl e \<Rightarrow> Inl e
           | Inr ys \<Rightarrow> Inr ((records @ [x]) @ ys))"
        using True Inr
        by (intro "1.hyps" [of "JNum (int (length xs))" "xs ! index" x]) (simp_all add: js_less_def)
      with True d Inr show ?thesis
        by (subst parse_loop.simps) (simp add: js_less_def split: sum.splits)
    qed
  next
    case False
    with "1.prems" have "index = length xs" by simp
    then show ?thesis
      by (subst parse_loop.simps) (simp add: js_less_def)
  qed
qed

lemma parse_each_Inr: "parse_each p xs = Inr ys \<longleftrightarrow> map p xs = map Inr ys"
proof (induction xs arbitrary: ys)
  case Nil
  then show ?case by auto
next
  case (Cons a xs)
  show ?case
  proof (cases ys)
    case Nil
    then show ?thesis by (simp split: sum.splits)
  next
    case (Cons y ys')
    with Cons.IH [of ys'] show ?thesis
      by (cases "p a"; cases "parse_each p xs") auto
  qed
qed

lemma domain_string_Some: "domain c = Some d \<Longrightarrow> domain_string c = d"
  by (simp add: domain_string_def)

lemma put_unfold:
  "DatabaseRecordClient_put c r w =
     submit c r (domain_string c @ getEndpoint c @ show_int (record_id c r) @ ''/'') ''PUT'' w"
  by (simp add: DatabaseRecordClient_put_def)

lemma post_unfold:
  "DatabaseRecordClient_post c r w = submit c r (domain_string c @ getEndpoint c) ''POST'' w"
  by (simp add: DatabaseRecordClient_post_def)

subsection \<open>Query strings are read back as written\<close>










lemma pair_not_empty: "urlencode n @ CHR ''='' # urlencode v \<noteq> []"
  by simp






subsection \<open>The calls of APIClient, factored the same way\<close>

lemma APIClient_fetch_unfold:
  "APIClient_fetch c w =
     (let req = APIClient_fetch_request c (fst (getAccessToken w));
          w2 = (snd (getAccessToken w))\<lparr>sent := sent w @ [req]\<rparr>
      in case network w req of
           Rejected \<Rightarrow> (Inl NetworkError, w2)
         | Responded response \<Rightarrow> APIClient_fetch_response c response w2)"
  by (simp add: APIClient_fetch_def js_fetch_def Let_def case_prod_beta
      getAccessToken_network getAccessToken_sent split: fetched.splits)

lemma APIClient_get_unfold:
  "APIClient_get c rid w =
     (let req = get_request c rid (fst (getAccessToken w));
          w2 = (snd (getAccessToken w))\<lparr>sent := sent w @ [req]\<rparr>
      in case network w req of
           Rejected \<Rightarrow> (Inl NetworkError, w2)
         | Responded response \<Rightarrow> APIClient_get_response c response w2)"
  by (simp add: APIClient_get_def js_fetch_def Let_def case_prod_beta
      getAccessToken_network getAccessToken_sent split: fetched.splits)

lemma APIClient_post_unfold:
  "APIClient_post c r w =
     (let req = submit_request c r (domain_string c @ getEndpoint c) ''POST''
                  (fst (getAccessToken w));
          w2 = (snd (getAccessToken w))\<lparr>sent := sent w @ [req]\<rparr>
      in case network w req of
           Rejected \<Rightarrow> (Inl NetworkError, w2)
         | Responded response \<Rightarrow> APIClient_write_response response w2)"
  by (simp add: APIClient_post_def js_fetch_def Let_def case_prod_beta
      getAccessToken_network getAccessToken_sent split: fetched.splits)

lemma APIClient_put_unfold:
  "APIClient_put c r w =
     (let req = submit_request c r
                  (domain_string c @ getEndpoint c @ show_int (record_id c r) @ ''/'') ''PUT''
                  (fst (getAccessToken w));
          w2 = (snd (getAccessToken w))\<lparr>sent := sent w @ [req]\<rparr>
      in case network w req of
           Rejected \<Rightarrow> (Inl NetworkError, w2)
         | Responded response \<Rightarrow> APIClient_write_response response w2)"
  by (simp add: APIClient_put_def js_fetch_def Let_def case_prod_beta
      getAccessToken_network getAccessToken_sent split: fetched.splits)

subsection \<open>Responses\<close>

lemma truthy_member_owner: "get_member data name = Inr v \<Longrightarrow> truthy v \<Longrightarrow> truthy data"
  by (cases data) (auto split: if_splits)

lemma not_nullish: "(\<not> nullish v) = (v \<noteq> JNull \<and> v \<noteq> JUndefined)"
  by (cases v) simp_all

lemma fetch_response_success:
  assumes "fetch_response c page response = Inr (Multi_asSuccessResult st records pg hp hn)"
    and "parsed_body response = Some json"
  shows "status response = 200 \<and> st = 200 \<and> pg = page
    \<and> (\<exists>results previous next.
          get_member json ''results'' = Inr results
        \<and> parse_loop (parse c) results 0 [] = Inr records
        \<and> get_member json ''previous'' = Inr previous
        \<and> get_member json ''next'' = Inr next
        \<and> hp = (\<not> nullish previous) \<and> hn = (\<not> nullish next))"
proof (cases "status response = 200")
  case False
  with assms show ?thesis
    by (simp add: fetch_response_def split: sum.splits)
next
  case True
  with assms show ?thesis
    by (simp add: fetch_response_def split: sum.splits)
qed

lemma fetch_response_array:
  assumes "parsed_body response = Some json"
    and "status response = 200"
    and "get_member json ''results'' = Inr (JArr rs)"
    and "get_member json ''previous'' = Inr previous"
    and "get_member json ''next'' = Inr next"
  shows "fetch_response c page response =
     (case parse_each (parse c) rs of
        Inl e \<Rightarrow> Inl e
      | Inr records \<Rightarrow>
          Inr (Multi_asSuccessResult 200 records page (\<not> nullish previous) (\<not> nullish next)))"
proof -
  have "parse_loop (parse c) (JArr rs) 0 [] = parse_each (parse c) rs"
    by (simp add: parse_loop_array split: sum.splits)
  with assms show ?thesis
    by (simp add: fetch_response_def split: sum.splits)
qed

lemma network_world_with: "network (world_with s f) req = f"
  by (simp add: world_with_def)

lemma rejected_is_503:
  assumes "\<And>req. network w req = Rejected"
  shows "fst (DatabaseRecordClient_fetch c sortBy page_arg w) =
           Inr (Multi_asErrorResult 503 (JStr ''Could not connect to the API''))"
    and "fst (DatabaseRecordClient_get c i w) =
           Inr (Single_asErrorResult 503 (JStr ''Could not connect to the API''))"
    and "fst (DatabaseRecordClient_post c r w) =
           Inr (Single_asErrorResult 503 (JStr ''Could not connect to API''))"
    and "fst (DatabaseRecordClient_put c r w) =
           Inr (Single_asErrorResult 503 (JStr ''Could not connect to API''))"
  by (simp_all add: fetch_unfold get_unfold post_unfold put_unfold submit_unfold Let_def assms)

lemma error_of_precedence:
  assumes "get_member json ''detail'' = Inr detail"
    and "get_member json ''details'' = Inr details"
    and "details = JUndefined \<or> details = JNull \<or> (\<exists>ds. details = JArr ds)"
  shows "error_of json =
     Inr (if truthy detail then detail
          else (case details of JArr (x # xs) \<Rightarrow> x | _ \<Rightarrow> JStr ''Unknown error''))"
  using assms
  by (auto simp add: error_of_def has_entries_def js_less_def split: list.splits)

lemma failed_response_message:
  assumes "\<And>req. network w req = Responded response"
    and "parsed_body response = Some json"
    and "status response \<noteq> 200" and "status response \<noteq> 201"
  shows "fst (DatabaseRecordClient_fetch c sortBy page_arg w) =
           (case error_of json of Inl e \<Rightarrow> Inl e
            | Inr error \<Rightarrow> Inr (Multi_asErrorResult (status response) error))"
    and "fst (DatabaseRecordClient_post c r w) =
           (case error_of json of Inl e \<Rightarrow> Inl e
            | Inr error \<Rightarrow> Inr (Single_asErrorResult (status response) error))"
    and "fst (DatabaseRecordClient_put c r w) =
           (case error_of json of Inl e \<Rightarrow> Inl e
            | Inr error \<Rightarrow> Inr (Single_asErrorResult (status response) error))"
    and "fst (DatabaseRecordClient_get c i w) =
           (case get_member json ''detail'' of Inl e \<Rightarrow> Inl e
            | Inr detail \<Rightarrow>
                Inr (Single_asErrorResult (status response)
                       (if nullish detail then JStr ''Unknown error'' else detail)))"
  using assms(2-4)
  by (simp_all add: fetch_unfold get_unfold post_unfold put_unfold submit_unfold Let_def assms(1)
      fetch_response_def submit_response_def get_response_def)

section \<open>The message of a network failure\<close>

text \<open>
  Claim C1. When the HTTP call itself fails, \<open>fetch\<close>, \<open>get\<close>, \<open>post\<close> and \<open>put\<close> of
  DatabaseRecordClient return a failure result with status 503 and one fixed message,
  the same for the four. The status is 503 in all four (\<open>rejected_is_503\<close>), but the
  message is not the same: with the backend unreachable, \<open>fetch\<close> and \<open>get\<close> answer
  \<open>Could not connect to the API\<close>, while \<open>post\<close> and \<open>put\<close>, through \<open>submit\<close>, answer
  \<open>Could not connect to API\<close>.
\<close>

theorem network_failure_messages_differ:
  "fst (DatabaseRecordClient_fetch expense_client by_date None (world_with signed_in Rejected)) =
      Inr (Multi_asErrorResult 503 (JStr ''Could not connect to the API''))
   \<and> fst (DatabaseRecordClient_get expense_client 7 (world_with signed_in Rejected)) =
      Inr (Single_asErrorResult 503 (JStr ''Could not connect to the API''))
   \<and> fst (DatabaseRecordClient_post expense_client expense_seven (world_with signed_in Rejected)) =
      Inr (Single_asErrorResult 503 (JStr ''Could not connect to API''))
   \<and> fst (DatabaseRecordClient_put expense_client expense_seven (world_with signed_in Rejected)) =
      Inr (Single_asErrorResult 503 (JStr ''Could not connect to API''))
   \<and> JStr ''Could not connect to API'' \<noteq> JStr ''Could not connect to the API''"
  by code_simp

section \<open>The message of a refused request\<close>

text \<open>
  Claim C2. When the response is not a success, the message of the failure result is
  \<open>detail\<close> if present, else the first entry of \<open>details\<close> if that array has one, else
  the fallback, with the response's status, alike in \<open>fetch\<close>, \<open>get\<close>, \<open>post\<close> and
  \<open>put\<close>. \<open>fetch\<close>, \<open>post\<close> and \<open>put\<close> do so (\<open>failed_response_message\<close>,
  \<open>error_of_precedence\<close>; they test \<open>detail\<close> for truth); \<open>get\<close> never reads \<open>details\<close>.
  A response of status 400 whose body is \<open>{details: [Bad date]}\<close> gives
  \<open>Unknown error\<close> in \<open>get\<close> and \<open>Bad date\<close> in the three others.
\<close>

theorem get_ignores_details:
  "fst (DatabaseRecordClient_get expense_client 7 (world_with signed_in (Responded refusal))) =
      Inr (Single_asErrorResult 400 (JStr ''Unknown error''))
   \<and> fst (DatabaseRecordClient_fetch expense_client by_date None
          (world_with signed_in (Responded refusal))) =
      Inr (Multi_asErrorResult 400 (JStr ''Bad date''))
   \<and> fst (DatabaseRecordClient_post expense_client expense_seven
          (world_with signed_in (Responded refusal))) =
      Inr (Single_asErrorResult 400 (JStr ''Bad date''))
   \<and> fst (DatabaseRecordClient_put expense_client expense_seven
          (world_with signed_in (Responded refusal))) =
      Inr (Single_asErrorResult 400 (JStr ''Bad date''))"
  by code_simp

section \<open>Exceptions that reach the caller\<close>

text \<open>
  Claim C3. Whatever the response, no operation of DatabaseRecordClient lets an
  exception reach the caller. Only the \<open>fetch\<close> call stands inside \<open>try\<close>:
  \<open>response.json()\<close> is awaited after it, so a response whose body is not JSON (a 502
  page of a gateway) throws a SyntaxError out of \<open>fetch\<close>, \<open>get\<close> and \<open>put\<close>; and a
  response of status 200 whose body is \<open>{}\<close> or \<open>null\<close> throws a TypeError out of
  \<open>fetch\<close>, which reads \<open>json.results.length\<close> unguarded.
\<close>

theorem exceptions_reach_the_caller:
  "fst (DatabaseRecordClient_fetch expense_client by_date None
          (world_with signed_in (Responded bad_gateway))) = Inl SyntaxError
   \<and> fst (DatabaseRecordClient_get expense_client 7
          (world_with signed_in (Responded bad_gateway))) = Inl SyntaxError
   \<and> fst (DatabaseRecordClient_put expense_client expense_seven
          (world_with signed_in (Responded bad_gateway))) = Inl SyntaxError
   \<and> fst (DatabaseRecordClient_fetch expense_client by_date None
          (world_with signed_in (Responded empty_object))) = Inl TypeError
   \<and> fst (DatabaseRecordClient_fetch expense_client by_date None
          (world_with signed_in (Responded null_body))) = Inl TypeError"
  by code_simp

section \<open>What APIClient returns\<close>

text \<open>
  Claim C4, as amended. Every operation of APIClient, once its request has completed,
  returns its sentinel (the empty list for \<open>fetch\<close>, \<open>null\<close> for \<open>get\<close>, \<open>post\<close> and
  \<open>put\<close>) when the status is not OK, when the body is a falsy JSON value, and in
  \<open>fetch\<close> when \<open>detail\<close> is truthy or \<open>results\<close> is falsy. Otherwise \<open>fetch\<close> returns
  the parse of each entry of the \<open>results\<close> array in order (or throws what \<open>parse\<close>
  throws, with no partial list), \<open>get\<close> the parse of the body, \<open>post\<close> and \<open>put\<close> the
  body as received. A network failure is not caught: the rejection of the HTTP call
  reaches the caller, and so does the rejection of \<open>response.json()\<close> on a body that is
  not JSON. The theorem speaks of a world in which every request meets the same fate
  \<open>f\<close>.
\<close>

theorem APIClient_outcomes:
  assumes "\<And>req. network w req = f"
  shows
    "(f = Rejected \<longrightarrow>
        fst (APIClient_fetch c w) = Inl NetworkError \<and> fst (APIClient_get c i w) = Inl NetworkError
      \<and> fst (APIClient_post c r w) = Inl NetworkError \<and> fst (APIClient_put c r w) = Inl NetworkError)
   \<and> (\<forall>resp. f = Responded resp \<and> \<not> ok resp \<longrightarrow>
        fst (APIClient_fetch c w) = Inr [] \<and> fst (APIClient_get c i w) = Inr None
      \<and> fst (APIClient_post c r w) = Inr JNull \<and> fst (APIClient_put c r w) = Inr JNull)
   \<and> (\<forall>resp. f = Responded resp \<and> ok resp \<and> parsed_body resp = None \<longrightarrow>
        fst (APIClient_fetch c w) = Inl SyntaxError \<and> fst (APIClient_get c i w) = Inl SyntaxError
      \<and> fst (APIClient_post c r w) = Inl SyntaxError \<and> fst (APIClient_put c r w) = Inl SyntaxError)
   \<and> (\<forall>resp data. f = Responded resp \<and> ok resp \<and> parsed_body resp = Some data \<and> \<not> truthy data \<longrightarrow>
        fst (APIClient_fetch c w) = Inr [] \<and> fst (APIClient_get c i w) = Inr None
      \<and> fst (APIClient_post c r w) = Inr JNull \<and> fst (APIClient_put c r w) = Inr JNull)
   \<and> (\<forall>resp data detail results.
        f = Responded resp \<and> ok resp \<and> parsed_body resp = Some data
        \<and> get_member data ''detail'' = Inr detail \<and> get_member data ''results'' = Inr results
        \<and> (truthy detail \<or> \<not> truthy results) \<longrightarrow>
        fst (APIClient_fetch c w) = Inr [])
   \<and> (\<forall>resp data detail rs.
        f = Responded resp \<and> ok resp \<and> parsed_body resp = Some data
        \<and> get_member data ''detail'' = Inr detail \<and> \<not> truthy detail
        \<and> get_member data ''results'' = Inr (JArr rs) \<longrightarrow>
        fst (APIClient_fetch c w) = parse_each (parse c) rs)
   \<and> (\<forall>resp data. f = Responded resp \<and> ok resp \<and> parsed_body resp = Some data \<and> truthy data \<longrightarrow>
        fst (APIClient_get c i w) = (case parse c data of Inl e \<Rightarrow> Inl e | Inr x \<Rightarrow> Inr (Some x))
      \<and> fst (APIClient_post c r w) = Inr data \<and> fst (APIClient_put c r w) = Inr data)"
proof -
  have loop: "parse_loop (parse c) (JArr rs) 0 [] = parse_each (parse c) rs" for rs
    by (simp add: parse_loop_array split: sum.splits)
  have arr: "get_member data ''results'' = Inr (JArr rs) \<Longrightarrow> truthy data" for data rs
    by (rule truthy_member_owner [where v = "JArr rs"]) simp_all
  show ?thesis
    unfolding APIClient_fetch_unfold APIClient_get_unfold APIClient_post_unfold
      APIClient_put_unfold Let_def assms
    by (cases f)
      (auto simp add: APIClient_fetch_response_def APIClient_get_response_def
        APIClient_write_response_def loop dest: arr split: sum.splits)
qed

theorem APIClient_outcomes_witness:
  "fst (APIClient_get expense_client 7 (world_with signed_in Rejected)) = Inl NetworkError
   \<and> fst (APIClient_get expense_client 7 (world_with signed_in (Responded refusal))) = Inr None
   \<and> fst (APIClient_put expense_client expense_seven (world_with signed_in (Responded no_content)))
       = Inl SyntaxError
   \<and> fst (APIClient_post expense_client expense_seven (world_with signed_in (Responded null_body)))
       = Inr JNull
   \<and> fst (APIClient_fetch expense_client (world_with signed_in (Responded flagged))) = Inr []
   \<and> fst (APIClient_fetch expense_client (world_with signed_in (Responded empty_object))) = Inr []
   \<and> fst (APIClient_fetch expense_client (world_with signed_in (Responded second_page)))
       = Inr [JObj [(''id'', JNum 1)]]
   \<and> fst (APIClient_get expense_client 7 (world_with signed_in (Responded empty_object)))
       = Inr (Some (JObj []))
   \<and> fst (APIClient_post expense_client expense_seven (world_with signed_in (Responded empty_object)))
       = Inr (JObj [])"
proof -
  note t = APIClient_outcomes [where c = expense_client and i = 7 and r = expense_seven]
  have p: "parse expense_client (JObj []) = Inr (JObj [])"
    "parse expense_client (JObj [(''id'', JNum 1)]) = Inr (JObj [(''id'', JNum 1)])"
    by (simp_all add: expense_client_def)
  have 1: "fst (APIClient_get expense_client 7 (world_with signed_in Rejected)) = Inl NetworkError"
    using t [OF network_world_with [of signed_in Rejected]] by simp
  have 2: "fst (APIClient_get expense_client 7 (world_with signed_in (Responded refusal))) = Inr None"
    using t [OF network_world_with [of signed_in "Responded refusal"]] by (simp add: ok_def refusal_def)
  have 3: "fst (APIClient_put expense_client expense_seven
      (world_with signed_in (Responded no_content))) = Inl SyntaxError"
    using t [OF network_world_with [of signed_in "Responded no_content"]] by (simp add: ok_def no_content_def)
  have 4: "fst (APIClient_post expense_client expense_seven
      (world_with signed_in (Responded null_body))) = Inr JNull"
    using t [OF network_world_with [of signed_in "Responded null_body"]] by (simp add: ok_def null_body_def)
  have 5: "fst (APIClient_fetch expense_client (world_with signed_in (Responded flagged))) = Inr []"
    using t [OF network_world_with [of signed_in "Responded flagged"]] by (simp add: ok_def flagged_def)
  have 6: "fst (APIClient_fetch expense_client (world_with signed_in (Responded empty_object))) = Inr []"
    using t [OF network_world_with [of signed_in "Responded empty_object"]] by (simp add: ok_def empty_object_def)
  have 7: "fst (APIClient_fetch expense_client (world_with signed_in (Responded second_page)))
       = Inr [JObj [(''id'', JNum 1)]]"
    using t [OF network_world_with [of signed_in "Responded second_page"]] by (simp add: ok_def second_page_def p)
  have 8: "fst (APIClient_get expense_client 7 (world_with signed_in (Responded empty_object)))
       = Inr (Some (JObj []))"
    "fst (APIClient_post expense_client expense_seven (world_with signed_in (Responded empty_object)))
       = Inr (JObj [])"
    using t [OF network_world_with [of signed_in "Responded empty_object"]] by (simp_all add: ok_def empty_object_def p)
  from 1 2 3 4 5 6 7 8 show ?thesis by simp
qed

text \<open>
  Claim C4 as first stated fails: with the backend unreachable the four operations
  throw, they do not return the empty list or \<open>null\<close>.
\<close>

theorem APIClient_network_failure_is_thrown:
  "fst (APIClient_fetch expense_client (world_with signed_in Rejected)) = Inl NetworkError
   \<and> fst (APIClient_fetch expense_client (world_with signed_in Rejected)) \<noteq> Inr []
   \<and> fst (APIClient_get expense_client 7 (world_with signed_in Rejected)) = Inl NetworkError
   \<and> fst (APIClient_post expense_client expense_seven (world_with signed_in Rejected)) = Inl NetworkError
   \<and> fst (APIClient_put expense_client expense_seven (world_with signed_in Rejected)) = Inl NetworkError"
  by code_simp

section \<open>The result of a successful fetch\<close>

text \<open>
  Claim C5. Take a call of \<open>fetch\<close> of DatabaseRecordClient with requested page \<open>page\<close>
  (1 when omitted) whose response has a JSON body with a \<open>results\<close> array. The call
  returns a success result exactly when the status is 200 and \<open>parse\<close> accepts every
  entry of \<open>results\<close>; and then the result is the one whose records are the parse of
  each entry in order, whose page is \<open>page\<close>, whose \<open>hasPreviousPage\<close> is true exactly
  when the \<open>previous\<close> field is not null, and whose \<open>hasNextPage\<close> is true exactly when
  \<open>next\<close> is not null (a field that is absent reads \<open>undefined\<close> and counts as null, as
  \<open>!= null\<close> has it). Read from right to left the equivalence says that such a response
  does yield this success result; from left to right, that a success result has these
  fields and no others. The witness computes, through the theorem, the mock of the
  specification (page 2, one record, \<open>previous\<close> a string and \<open>next\<close> null), a first
  page (\<open>previous\<close> null, \<open>next\<close> a URL) and a page of two records with no \<open>next\<close>
  field.
\<close>

theorem fetch_success_result:
  assumes "network w (fetch_request c sortBy page (fst (getAccessToken w))) = Responded response"
    and "page = (case page_arg of None \<Rightarrow> 1 | Some p \<Rightarrow> p)"
    and "parsed_body response = Some json"
    and "get_member json ''results'' = Inr (JArr rs)"
    and "get_member json ''previous'' = Inr previous"
    and "get_member json ''next'' = Inr next"
  shows "fst (DatabaseRecordClient_fetch c sortBy page_arg w) =
          Inr (Multi_asSuccessResult st records pg hasPreviousPage hasNextPage)
     \<longleftrightarrow> status response = 200 \<and> st = 200 \<and> pg = page
        \<and> map (parse c) rs = map Inr records
        \<and> hasPreviousPage = (previous \<noteq> JNull \<and> previous \<noteq> JUndefined)
        \<and> hasNextPage = (next \<noteq> JNull \<and> next \<noteq> JUndefined)"
proof -
  have r: "fst (DatabaseRecordClient_fetch c sortBy page_arg w) = fetch_response c page response"
    using assms(1,2) by (simp add: fetch_unfold Let_def)
  show ?thesis
  proof (cases "status response = 200")
    case True
    show ?thesis
      unfolding r fetch_response_array [OF assms(3) True assms(4-6)]
      by (cases "parse_each (parse c) rs")
        (auto simp add: not_nullish True parse_each_Inr [symmetric])
  next
    case False
    then have "fetch_response c page response \<noteq>
        Inr (Multi_asSuccessResult st records pg hasPreviousPage hasNextPage)"
      using assms(3) by (simp add: fetch_response_def split: sum.splits)
    with False show ?thesis
      unfolding r by simp
  qed
qed

theorem fetch_success_result_witness:
  "network (world_with signed_in (Responded second_page))
     (fetch_request expense_client by_date 2
        (fst (getAccessToken (world_with signed_in (Responded second_page))))) = Responded second_page
   \<and> parsed_body second_page =
       Some (JObj [(''results'', JArr [JObj [(''id'', JNum 1)]]), (''previous'', JStr ''...''),
                   (''next'', JNull)])
   \<and> status second_page = 200
   \<and> map (parse expense_client) [JObj [(''id'', JNum 1)]] = map Inr [JObj [(''id'', JNum 1)]]
   \<and> fst (DatabaseRecordClient_fetch expense_client by_date (Some 2)
            (world_with signed_in (Responded second_page))) =
       Inr (Multi_asSuccessResult 200 [JObj [(''id'', JNum 1)]] 2 True False)
   \<and> fst (DatabaseRecordClient_fetch expense_client by_date (Some 2)
            (world_with signed_in (Responded second_page))) \<noteq>
       Inr (Multi_asSuccessResult 200 [JObj [(''id'', JNum 1)]] 2 True True)
   \<and> parsed_body first_page =
       Some (JObj [(''results'', JArr [JObj [(''id'', JNum 1)]]), (''previous'', JNull),
                   (''next'', JStr ''url'')])
   \<and> fst (DatabaseRecordClient_fetch expense_client by_date None
            (world_with signed_in (Responded first_page))) =
       Inr (Multi_asSuccessResult 200 [JObj [(''id'', JNum 1)]] 1 False True)
   \<and> parsed_body third_page =
       Some (JObj [(''results'', JArr [JObj [(''id'', JNum 5)], JObj [(''id'', JNum 6)]]),
                   (''previous'', JStr ''url'')])
   \<and> fst (DatabaseRecordClient_fetch expense_client by_date (Some 3)
            (world_with signed_in (Responded third_page))) =
       Inr (Multi_asSuccessResult 200 [JObj [(''id'', JNum 5)], JObj [(''id'', JNum 6)]] 3
              True False)"
proof -
  let ?second = "JObj [(''results'', JArr [JObj [(''id'', JNum 1)]]), (''previous'', JStr ''...''),
                   (''next'', JNull)]"
  let ?first = "JObj [(''results'', JArr [JObj [(''id'', JNum 1)]]), (''previous'', JNull),
                   (''next'', JStr ''url'')]"
  let ?third = "JObj [(''results'', JArr [JObj [(''id'', JNum 5)], JObj [(''id'', JNum 6)]]),
                   (''previous'', JStr ''url'')]"
  have n: "network (world_with signed_in (Responded r))
     (fetch_request expense_client by_date p
        (fst (getAccessToken (world_with signed_in (Responded r))))) = Responded r" for r p
    by (simp add: world_with_def)
  have p: "(2::int) = (case Some 2 of None \<Rightarrow> 1 | Some p \<Rightarrow> p)"
    "(1::int) = (case None of None \<Rightarrow> 1 | Some p \<Rightarrow> p)"
    "(3::int) = (case Some 3 of None \<Rightarrow> 1 | Some p \<Rightarrow> p)"
    by simp_all
  have b: "parsed_body second_page = Some ?second" "parsed_body first_page = Some ?first"
    "parsed_body third_page = Some ?third"
    by (simp_all add: second_page_def first_page_def third_page_def)
  have s: "status second_page = 200" "status first_page = 200" "status third_page = 200"
    by (simp_all add: second_page_def first_page_def third_page_def)
  have m2: "get_member ?second ''results'' = Inr (JArr [JObj [(''id'', JNum 1)]])"
    "get_member ?second ''previous'' = Inr (JStr ''...'')"
    "get_member ?second ''next'' = Inr JNull"
    by simp_all
  have m1: "get_member ?first ''results'' = Inr (JArr [JObj [(''id'', JNum 1)]])"
    "get_member ?first ''previous'' = Inr JNull"
    "get_member ?first ''next'' = Inr (JStr ''url'')"
    by simp_all
  have m3: "get_member ?third ''results'' = Inr (JArr [JObj [(''id'', JNum 5)], JObj [(''id'', JNum 6)]])"
    "get_member ?third ''previous'' = Inr (JStr ''url'')"
    "get_member ?third ''next'' = Inr JUndefined"
    by simp_all
  have q: "parse expense_client (JObj kvs) = Inr (JObj kvs)" for kvs
    by (simp add: expense_client_def)
  have e2: "fst (DatabaseRecordClient_fetch expense_client by_date (Some 2)
            (world_with signed_in (Responded second_page))) =
       Inr (Multi_asSuccessResult 200 [JObj [(''id'', JNum 1)]] 2 True False)"
    using fetch_success_result [OF n p(1) b(1) m2,
        of 200 "[JObj [(''id'', JNum 1)]]" 2 True False]
    by (simp add: s q)
  have e2': "fst (DatabaseRecordClient_fetch expense_client by_date (Some 2)
            (world_with signed_in (Responded second_page))) \<noteq>
       Inr (Multi_asSuccessResult 200 [JObj [(''id'', JNum 1)]] 2 True True)"
    using fetch_success_result [OF n p(1) b(1) m2,
        of 200 "[JObj [(''id'', JNum 1)]]" 2 True True]
    by (simp add: s q)
  have e1: "fst (DatabaseRecordClient_fetch expense_client by_date None
            (world_with signed_in (Responded first_page))) =
       Inr (Multi_asSuccessResult 200 [JObj [(''id'', JNum 1)]] 1 False True)"
    using fetch_success_result [OF n p(2) b(2) m1,
        of 200 "[JObj [(''id'', JNum 1)]]" 1 False True]
    by (simp add: s q)
  have e3: "fst (DatabaseRecordClient_fetch expense_client by_date (Some 3)
            (world_with signed_in (Responded third_page))) =
       Inr (Multi_asSuccessResult 200 [JObj [(''id'', JNum 5)], JObj [(''id'', JNum 6)]] 3
              True False)"
    using fetch_success_result [OF n p(3) b(3) m3,
        of 200 "[JObj [(''id'', JNum 5)], JObj [(''id'', JNum 6)]]" 3 True False]
    by (simp add: s q)
  from n [of second_page 2] b s(1) q e2 e2' e1 e3 show ?thesis
    by simp
qed

section \<open>The request of put\<close>

text \<open>
  Claim C6. For every record \<open>r\<close>, \<open>put(r)\<close> of DatabaseRecordClient issues exactly one
  HTTP request: the list of requests sent grows by one entry, whose method is PUT, whose
  target is the configured domain followed by the endpoint, \<open>r.id\<close> and a slash, and
  whose body is the record as \<open>JSON.stringify\<close> writes it.
\<close>

theorem put_issues_one_PUT:
  assumes "domain c = Some d"
  shows "sent (snd (DatabaseRecordClient_put c r w)) =
     sent w @
       [\<lparr>target = d @ getEndpoint c @ show_int (record_id c r) @ ''/'',
         meth = Some ''PUT'',
         headers = [(''Content-Type'', ''application/json''),
                    (''Authorization'', ''Token '' @ fst (getAccessToken w))],
         body = Some (stringify c r),
         cache = None\<rparr>]"
  using assms
  by (simp add: put_unfold submit_unfold Let_def submit_request_def authorization_def
      domain_string_Some)

theorem put_issues_one_PUT_witness:
  "domain expense_client = Some ''https://api.test'' \<and>
   sent (snd (DatabaseRecordClient_put expense_client expense_seven (world_with signed_in (Responded refusal)))) =
     [\<lparr>target = ''https://api.test/expenses/7/'',
       meth = Some ''PUT'',
       headers = [(''Content-Type'', ''application/json''), (''Authorization'', ''Token abc'')],
       body = Some ''id:7'',
       cache = None\<rparr>]"
proof -
  have d: "domain expense_client = Some ''https://api.test''"
    by (simp add: expense_client_def)
  have e: "show_int (record_id expense_client expense_seven) = ''7''"
    "getEndpoint expense_client = ''/expenses/''"
    "stringify expense_client expense_seven = ''id:7''"
    "fst (getAccessToken (world_with signed_in (Responded refusal))) = ''abc''"
    "sent (world_with signed_in (Responded refusal)) = []"
    by code_simp+
  show ?thesis
    using put_issues_one_PUT [OF d, of expense_seven "world_with signed_in (Responded refusal)"]
    by (simp add: d e)
qed

section \<open>A call without a session\<close>

text \<open>
  Claim C7. When there is no session, \<open>getAccessToken\<close> writes one error line to the
  console and returns the empty string, and each operation of DatabaseRecordClient still
  issues its request, with the header \<open>Authorization: Token \<close> and nothing after it.
\<close>

theorem missing_session_still_sends:
  assumes "current_session w = None"
  shows "getAccessToken w = ('''', w\<lparr>console := console w @ [''Could not get session'']\<rparr>)
    \<and> (\<exists>req. sent (snd (DatabaseRecordClient_fetch c sortBy page_arg w)) = sent w @ [req]
          \<and> map_of (headers req) ''Authorization'' = Some ''Token '')
    \<and> (\<exists>req. sent (snd (DatabaseRecordClient_get c i w)) = sent w @ [req]
          \<and> map_of (headers req) ''Authorization'' = Some ''Token '')
    \<and> (\<exists>req. sent (snd (DatabaseRecordClient_post c r w)) = sent w @ [req]
          \<and> map_of (headers req) ''Authorization'' = Some ''Token '')
    \<and> (\<exists>req. sent (snd (DatabaseRecordClient_put c r w)) = sent w @ [req]
          \<and> map_of (headers req) ''Authorization'' = Some ''Token '')
    \<and> (\<exists>req. sent (snd (DatabaseRecordClient_delete c i w)) = sent w @ [req]
          \<and> map_of (headers req) ''Authorization'' = Some ''Token '')"
proof -
  have t: "getAccessToken w = ('''', w\<lparr>console := console w @ [''Could not get session'']\<rparr>)"
    using assms by (simp add: getAccessToken_def console_error_def)
  then have f: "fst (getAccessToken w) = ''''" by simp
  show ?thesis
    by (simp add: t f fetch_unfold get_unfold post_unfold put_unfold submit_unfold delete_unfold
        Let_def fetch_request_def get_request_def submit_request_def delete_request_def
        authorization_def)
qed

theorem missing_session_still_sends_witness:
  "current_session (world_with None (Responded second_page)) = None
   \<and> getAccessToken (world_with None (Responded second_page)) =
       ('''', (world_with None (Responded second_page))\<lparr>console := [''Could not get session'']\<rparr>)
   \<and> (\<exists>req. sent (snd (DatabaseRecordClient_fetch expense_client by_date None
                 (world_with None (Responded second_page)))) = [req]
          \<and> map_of (headers req) ''Authorization'' = Some ''Token '')"
proof -
  have n: "current_session (world_with None (Responded second_page)) = None"
    "sent (world_with None (Responded second_page)) = []"
    "console (world_with None (Responded second_page)) = []"
    by (simp_all add: world_with_def)
  show ?thesis
    using missing_session_still_sends [OF n(1), of expense_client by_date None 0 JNull]
    by (simp add: n)
qed

section \<open>The request of fetch\<close>



section \<open>What delete returns\<close>



section \<open>A detail field hides the results\<close>

text \<open>
  Claim C10. \<open>fetch\<close> of APIClient returns the empty list whenever the body of the
  response has a truthy \<open>detail\<close> field, also when the status is OK and the body holds a
  \<open>results\<close> array: the witness is a response of status 200 with both.
\<close>

theorem APIClient_fetch_detail_hides_results:
  assumes "network w (APIClient_fetch_request c (fst (getAccessToken w))) = Responded r"
    and "parsed_body r = Some data"
    and "get_member data ''detail'' = Inr detail"
    and "truthy detail"
  shows "fst (APIClient_fetch c w) = Inr []"
  using assms truthy_member_owner [OF assms(3,4)]
  by (simp add: APIClient_fetch_unfold Let_def APIClient_fetch_response_def)

theorem APIClient_fetch_detail_hides_results_witness:
  "network (world_with signed_in (Responded flagged))
     (APIClient_fetch_request expense_client
        (fst (getAccessToken (world_with signed_in (Responded flagged))))) = Responded flagged
   \<and> ok flagged
   \<and> parsed_body flagged =
       Some (JObj [(''detail'', JStr ''Not found.''), (''results'', JArr [JObj [(''id'', JNum 1)]])])
   \<and> get_member (JObj [(''detail'', JStr ''Not found.''), (''results'', JArr [JObj [(''id'', JNum 1)]])])
        ''detail'' = Inr (JStr ''Not found.'')
   \<and> get_member (JObj [(''detail'', JStr ''Not found.''), (''results'', JArr [JObj [(''id'', JNum 1)]])])
        ''results'' = Inr (JArr [JObj [(''id'', JNum 1)]])
   \<and> truthy (JStr ''Not found.'')
   \<and> fst (APIClient_fetch expense_client (world_with signed_in (Responded flagged))) = Inr []"
proof -
  have n: "network (world_with signed_in (Responded flagged))
     (APIClient_fetch_request expense_client
        (fst (getAccessToken (world_with signed_in (Responded flagged))))) = Responded flagged"
    by (simp add: world_with_def)
  have b: "parsed_body flagged =
       Some (JObj [(''detail'', JStr ''Not found.''), (''results'', JArr [JObj [(''id'', JNum 1)]])])"
    by (simp add: flagged_def)
  have m: "get_member (JObj [(''detail'', JStr ''Not found.''), (''results'', JArr [JObj [(''id'', JNum 1)]])])
        ''detail'' = Inr (JStr ''Not found.'')"
    by simp
  have t: "truthy (JStr ''Not found.'')"
    by simp
  have o: "ok flagged"
    by (simp add: ok_def flagged_def)
  show ?thesis
    using APIClient_fetch_detail_hides_results [OF n b m t] n b m t o
    by simp
qed

end
